theory Spec2Isabelle
  imports Main "HOL-Library.Word" "HOL-Library.Sublist"
begin

section \<open>Values of the host language\<close>

text \<open>
  A \<^verbatim>\<open>Buffer\<close> is a list of bytes. A JavaScript string is a sequence of UTF-16 code
  units, so the whitespace set of \<^verbatim>\<open>trim\<close> and the negated character class of the scan
  pattern range over 16-bit values. Literals of the source are ASCII and are written with
  \<open>js\<close>.
\<close>

type_synonym byte = "8 word"
type_synonym buffer = "byte list"
type_synonym code_unit = "16 word"
type_synonym jsstring = "code_unit list"

definition js :: "string \<Rightarrow> jsstring" where
  "js s = map of_char s"

text \<open>
  A thrown value: the name of its class and its message. \<^verbatim>\<open>new Error(m)\<close> is
  \<open>Error m\<close>; the template \<^verbatim>\<open>${error}\<close> prints \<open>exn_toString\<close>.
\<close>

datatype exn = Exn (exn_name: string) (exn_message: string)

definition Error :: "string \<Rightarrow> exn" where
  "Error m = Exn ''Error'' m"

definition exn_toString :: "exn \<Rightarrow> string" where
  "exn_toString e = exn_name e @ '': '' @ exn_message e"

subsection \<open>String and buffer built-ins\<close>

text \<open>
  \<^verbatim>\<open>String.prototype.trim\<close> removes WhiteSpace and LineTerminator code points from both
  ends (ECMA-262): TAB, LF, VT, FF, CR, SP, NBSP, the Unicode space separators, LS, PS and
  the byte order mark.
\<close>

definition is_white_space :: "code_unit \<Rightarrow> bool" where
  "is_white_space c \<longleftrightarrow>
     c \<in> {0x9, 0xA, 0xB, 0xC, 0xD, 0x20, 0xA0, 0x1680,
          0x2028, 0x2029, 0x202F, 0x205F, 0x3000, 0xFEFF}
     \<or> (0x2000 \<le> c \<and> c \<le> 0x200A)"

definition trim :: "jsstring \<Rightarrow> jsstring" where
  "trim s = rev (dropWhile is_white_space (rev (dropWhile is_white_space s)))"

definition startsWith :: "jsstring \<Rightarrow> jsstring \<Rightarrow> bool" where
  "startsWith s p \<longleftrightarrow> take (length p) s = p"

definition endsWith :: "jsstring \<Rightarrow> jsstring \<Rightarrow> bool" where
  "endsWith s p \<longleftrightarrow> length p \<le> length s \<and> drop (length s - length p) s = p"

text \<open>
  \<^verbatim>\<open>slice\<close> and \<^verbatim>\<open>subarray\<close> take relative indices: a negative index counts from the
  end, and both ends are clamped to the length; an end before the start gives the empty
  sequence.
\<close>

definition relative_index :: "int \<Rightarrow> nat \<Rightarrow> nat" where
  "relative_index i len = (if i < 0 then nat (max (int len + i) 0) else min (nat i) len)"


definition subarray :: "buffer \<Rightarrow> int \<Rightarrow> int \<Rightarrow> buffer" where
  "subarray b start stop =
     (let lo = relative_index start (length b); hi = relative_index stop (length b)
      in take (hi - lo) (drop lo b))"

definition subarray_from :: "buffer \<Rightarrow> int \<Rightarrow> buffer" where
  "subarray_from b start = subarray b start (int (length b))"

section \<open>utils.ts\<close>

definition ENC_PREFIX :: jsstring where
  "ENC_PREFIX = js ''ENC(''"

definition ENC_SUFFIX :: jsstring where
  "ENC_SUFFIX = js '')''"

datatype js_arg = Null | Undefined | Str jsstring

fun isEncrypted :: "js_arg \<Rightarrow> bool" where
  "isEncrypted Null = False"
| "isEncrypted Undefined = False"
| "isEncrypted (Str v) =
     (if v = [] then False
      else let trimmed = trim v
           in startsWith trimmed ENC_PREFIX \<and> endsWith trimmed ENC_SUFFIX)"




section \<open>The platform\<close>

text \<open>
  The classes call Node's \<^verbatim>\<open>crypto\<close> module and the codecs of \<^verbatim>\<open>Buffer\<close>. These are
  not code of the repository; they are the fields of a record that every operation takes
  as its first argument, so that each theorem holds for every implementation of them, and
  says which of their properties it needs.
  \<^item> \<open>from_utf8\<close>, \<open>to_utf8\<close>: \<^verbatim>\<open>Buffer.from(s, 'utf-8')\<close>, \<^verbatim>\<open>buf.toString('utf-8')\<close>;
  \<^item> \<open>from_base64\<close>, \<open>to_base64\<close>: \<^verbatim>\<open>Buffer.from(s, 'base64')\<close>, \<^verbatim>\<open>buf.toString('base64')\<close>;
  \<^item> \<open>createHash a d\<close>: \<^verbatim>\<open>crypto.createHash(a).update(d).digest()\<close>;
  \<^item> \<open>pbkdf2Sync p s n len digest\<close>: the call of that name, which may throw;
  \<^item> \<open>cipheriv a key iv p\<close>: \<^verbatim>\<open>createCipheriv(a, key, iv)\<close> followed by \<^verbatim>\<open>update(p)\<close> and
    \<^verbatim>\<open>final()\<close>; \<open>decipheriv\<close> likewise with \<^verbatim>\<open>createDecipheriv\<close>; either may throw;
  \<^item> \<open>cipheriv_gcm a key iv p\<close>: the same for an authenticated mode, returning the
    ciphertext and what \<^verbatim>\<open>getAuthTag()\<close> gives; \<open>decipheriv_gcm a key iv tag c\<close>: with
    \<^verbatim>\<open>setAuthTag(tag)\<close> before \<^verbatim>\<open>update(c)\<close> and \<^verbatim>\<open>final()\<close>.
  The outcome of \<^verbatim>\<open>crypto.randomBytes(n)\<close> is an explicit argument of each \<open>encrypt\<close>.
\<close>

record platform =
  from_utf8 :: "jsstring \<Rightarrow> buffer"
  to_utf8 :: "buffer \<Rightarrow> jsstring"
  from_base64 :: "jsstring \<Rightarrow> buffer"
  to_base64 :: "buffer \<Rightarrow> jsstring"
  createHash :: "string \<Rightarrow> buffer \<Rightarrow> buffer"
  pbkdf2Sync :: "buffer \<Rightarrow> buffer \<Rightarrow> nat \<Rightarrow> nat \<Rightarrow> string \<Rightarrow> exn + buffer"
  cipheriv :: "string \<Rightarrow> buffer \<Rightarrow> buffer \<Rightarrow> buffer \<Rightarrow> exn + buffer"
  decipheriv :: "string \<Rightarrow> buffer \<Rightarrow> buffer \<Rightarrow> buffer \<Rightarrow> exn + buffer"
  cipheriv_gcm :: "string \<Rightarrow> buffer \<Rightarrow> buffer \<Rightarrow> buffer \<Rightarrow> exn + buffer \<times> buffer"
  decipheriv_gcm :: "string \<Rightarrow> buffer \<Rightarrow> buffer \<Rightarrow> buffer \<Rightarrow> buffer \<Rightarrow> exn + buffer"

text \<open>
  \<^verbatim>\<open>try { ... } catch (error) { throw new Error(`Decryption failed: ${error}`) }\<close>
\<close>

definition decryption_failed :: "exn + 'a \<Rightarrow> exn + 'a" where
  "decryption_failed r =
     (case r of
        Inl error \<Rightarrow> Inl (Error (''Decryption failed: '' @ exn_toString error))
      | Inr v \<Rightarrow> Inr v)"

section \<open>encryptor.ts: class Encryptor (AES-256-GCM)\<close>


record Encryptor =
  password :: buffer
  iterations :: nat
  saltSize :: nat
  keySize :: nat


definition deriveKey :: "platform \<Rightarrow> Encryptor \<Rightarrow> buffer \<Rightarrow> exn + buffer" where
  "deriveKey pr e salt = pbkdf2Sync pr (password e) salt (iterations e) (keySize e) ''sha256''"





section \<open>jasypt-compat.ts: class JasyptEncryptor (PBEWithMD5AndDES)\<close>


record JasyptEncryptor =
  jasypt_password :: jsstring
  jasypt_iterations :: nat

definition SALT_SIZE :: nat where
  "SALT_SIZE = 8"


text \<open>
  \<^verbatim>\<open>for (let i = 1; i < this.iterations; i++) result = md5(result)\<close>, entered with the
  given \<open>i\<close>.
\<close>

function md5_loop :: "platform \<Rightarrow> nat \<Rightarrow> nat \<Rightarrow> buffer \<Rightarrow> buffer" where
  "md5_loop pr i n result =
     (if i < n then md5_loop pr (i + 1) n (createHash pr ''md5'' result) else result)"
  by pat_completeness auto
termination
  by (relation "measure (\<lambda>(pr, i, n, result). n - i)") auto

declare md5_loop.simps [simp del]

definition JasyptEncryptor_deriveKeyAndIv ::
  "platform \<Rightarrow> JasyptEncryptor \<Rightarrow> buffer \<Rightarrow> buffer \<times> buffer" where
  "JasyptEncryptor_deriveKeyAndIv pr e salt =
     (let data = from_utf8 pr (jasypt_password e) @ salt;
          result = createHash pr ''md5'' data;
          result = md5_loop pr 1 (jasypt_iterations e) result
      in (subarray result 0 8, subarray result 8 16))"



definition JasyptEncryptor_decrypt :: "platform \<Rightarrow> JasyptEncryptor \<Rightarrow> jsstring \<Rightarrow> exn + jsstring" where
  "JasyptEncryptor_decrypt pr e encoded =
     (if encoded = [] then Inl (Error ''Encoded value cannot be empty'')
      else decryption_failed
        (let combined = from_base64 pr encoded
         in if length combined < 16 then Inl (Error ''Invalid Jasypt data'')
            else let salt = subarray combined 0 (int SALT_SIZE);
                     ciphertext = subarray_from combined (int SALT_SIZE)
                 in if length ciphertext mod 8 \<noteq> 0 then Inl (Error ''Invalid Jasypt data'')
                    else let (key, iv) = JasyptEncryptor_deriveKeyAndIv pr e salt
                         in case decipheriv pr ''des-cbc'' key iv ciphertext of
                              Inl error \<Rightarrow> Inl error
                            | Inr decrypted \<Rightarrow> Inr (to_utf8 pr decrypted)))"

section \<open>jasypt-compat.ts: class JasyptStrongEncryptor (PBEWithHmacSHA256AndAES_256)\<close>


record JasyptStrongEncryptor =
  strong_password :: buffer
  strong_iterations :: nat
  strong_saltSize :: nat

definition KEY_SIZE :: nat where
  "KEY_SIZE = 32"

definition IV_SIZE :: nat where
  "IV_SIZE = 16"


definition JasyptStrongEncryptor_deriveKeyAndIv ::
  "platform \<Rightarrow> JasyptStrongEncryptor \<Rightarrow> buffer \<Rightarrow> exn + buffer \<times> buffer" where
  "JasyptStrongEncryptor_deriveKeyAndIv pr e salt =
     (case pbkdf2Sync pr (strong_password e) salt (strong_iterations e) (KEY_SIZE + IV_SIZE)
             ''sha256'' of
        Inl error \<Rightarrow> Inl error
      | Inr derived \<Rightarrow>
          Inr (subarray derived 0 (int KEY_SIZE), subarray_from derived (int KEY_SIZE)))"



definition JasyptStrongEncryptor_decrypt ::
  "platform \<Rightarrow> JasyptStrongEncryptor \<Rightarrow> jsstring \<Rightarrow> exn + jsstring" where
  "JasyptStrongEncryptor_decrypt pr e encoded =
     (if encoded = [] then Inl (Error ''Encoded value cannot be empty'')
      else decryption_failed
        (let combined = from_base64 pr encoded
         in if length combined < strong_saltSize e + 16 then Inl (Error ''Invalid data'')
            else let salt = subarray combined 0 (int (strong_saltSize e));
                     ciphertext = subarray_from combined (int (strong_saltSize e))
                 in if length ciphertext mod 16 \<noteq> 0 then Inl (Error ''Invalid data'')
                    else case JasyptStrongEncryptor_deriveKeyAndIv pr e salt of
                           Inl error \<Rightarrow> Inl error
                         | Inr (key, iv) \<Rightarrow>
                             (case decipheriv pr ''aes-256-cbc'' key iv ciphertext of
                                Inl error \<Rightarrow> Inl error
                              | Inr decrypted \<Rightarrow> Inr (to_utf8 pr decrypted))))"

section \<open>The methods the three classes share\<close>







section \<open>What the theorems ask of the platform\<close>

text \<open>
  The round trips hold when the platform carries out the calls of one \<open>encrypt\<close> and
  undoes them in the matching \<open>decrypt\<close>. The predicates below say so for the arguments
  of one call, and nothing for any other argument: the text survives the UTF-8 codec, the
  key derivation and the cipher return a value, the decipher call with the same key and
  initialisation vector gives the plaintext bytes back, and the Base64 codec returns the
  blob it was given, as a text that is not empty.
\<close>

definition transports :: "platform \<Rightarrow> buffer \<Rightarrow> bool" where
  "transports pr combined \<longleftrightarrow>
     to_base64 pr combined \<noteq> [] \<and> from_base64 pr (to_base64 pr combined) = combined"




section \<open>The specification's words, to compare the code with\<close>

text \<open>
  The key and IV derivation of the Legacy Variant as the specification words it: \<open>n\<close>
  applications of the digest in all, the first one to the password bytes followed by the
  salt; the first eight bytes of the last output are the key, the rest is the IV.
\<close>

definition legacy_kdf_spec ::
  "(buffer \<Rightarrow> buffer) \<Rightarrow> buffer \<Rightarrow> buffer \<Rightarrow> nat \<Rightarrow> buffer \<times> buffer" where
  "legacy_kdf_spec digest pw salt n =
     (let d = (digest ^^ n) (pw @ salt) in (take 8 d, drop 8 d))"








section \<open>An executable platform\<close>

text \<open>
  A small platform on which the operations can be run: an 8-bit text codec, Base64 with
  the standard alphabet and padding and a decoder that skips what is not in the alphabet
  and stops at \<^verbatim>\<open>=\<close>, a 16-byte digest, a key stretcher built from it, and ciphers that
  add a key stream to the padded plaintext (PKCS padding, checked on decryption) or, in
  the authenticated mode, to the plaintext, with the digest of key, IV and ciphertext as
  the tag. It has no cryptographic strength. It gives the hypotheses of the theorems
  concrete inputs at which they hold, and shows what the code does when the bytes it
  slices happen to be accepted by the receiving cipher.
\<close>

definition toy_from_utf8 :: "jsstring \<Rightarrow> buffer" where
  "toy_from_utf8 s = map ucast s"

definition toy_to_utf8 :: "buffer \<Rightarrow> jsstring" where
  "toy_to_utf8 b = map ucast b"

definition base64_alphabet :: jsstring where
  "base64_alphabet = js ''ABCDEFGHIJKLMNOPQRSTUVWXYZabcdefghijklmnopqrstuvwxyz0123456789+/''"

definition base64_digit :: "nat \<Rightarrow> code_unit" where
  "base64_digit n = base64_alphabet ! n"

fun toy_to_base64 :: "buffer \<Rightarrow> jsstring" where
  "toy_to_base64 (a # b # c # rest) =
     (let n = (unat a * 256 + unat b) * 256 + unat c
      in base64_digit (n div 262144) # base64_digit (n div 4096 mod 64) #
         base64_digit (n div 64 mod 64) # base64_digit (n mod 64) # toy_to_base64 rest)"
| "toy_to_base64 [a, b] =
     (let n = (unat a * 256 + unat b) * 4
      in [base64_digit (n div 4096), base64_digit (n div 64 mod 64), base64_digit (n mod 64), 0x3D])"
| "toy_to_base64 [a] =
     (let n = unat a * 16
      in [base64_digit (n div 64), base64_digit (n mod 64), 0x3D, 0x3D])"
| "toy_to_base64 [] = []"

definition base64_value :: "code_unit \<Rightarrow> nat option" where
  "base64_value c =
     (if 0x41 \<le> c \<and> c \<le> 0x5A then Some (unat c - 65)
      else if 0x61 \<le> c \<and> c \<le> 0x7A then Some (unat c - 71)
      else if 0x30 \<le> c \<and> c \<le> 0x39 then Some (unat c + 4)
      else if c = 0x2B \<or> c = 0x2D then Some 62
      else if c = 0x2F \<or> c = 0x5F then Some 63
      else None)"

fun base64_sextets :: "jsstring \<Rightarrow> nat list" where
  "base64_sextets [] = []"
| "base64_sextets (c # cs) =
     (if c = 0x3D then []
      else case base64_value c of
             Some v \<Rightarrow> v # base64_sextets cs
           | None \<Rightarrow> base64_sextets cs)"

fun base64_octets :: "nat list \<Rightarrow> buffer" where
  "base64_octets (p # q # r # s # rest) =
     (let n = ((p * 64 + q) * 64 + r) * 64 + s
      in of_nat (n div 65536) # of_nat (n div 256 mod 256) # of_nat (n mod 256) #
         base64_octets rest)"
| "base64_octets [p, q, r] =
     (let n = (p * 64 + q) * 64 + r
      in [of_nat (n div 1024), of_nat (n div 4 mod 256)])"
| "base64_octets [p, q] = [of_nat ((p * 64 + q) div 16)]"
| "base64_octets [p] = []"
| "base64_octets [] = []"

definition toy_from_base64 :: "jsstring \<Rightarrow> buffer" where
  "toy_from_base64 s = base64_octets (base64_sextets s)"

definition toy_digest :: "buffer \<Rightarrow> buffer" where
  "toy_digest d =
     (let s = foldl (\<lambda>h b. 3 * h + b + 1) 7 d
      in map (\<lambda>k. k * s + k) [2, 3, 5, 7, 11, 13, 17, 19, 23, 29, 31, 37, 41, 43, 47, 53])"

primrec toy_stretch :: "nat \<Rightarrow> buffer \<Rightarrow> buffer" where
  "toy_stretch 0 d = d"
| "toy_stretch (Suc n) d = toy_stretch n (toy_digest d)"

primrec toy_expand :: "nat \<Rightarrow> buffer \<Rightarrow> buffer" where
  "toy_expand 0 seed = []"
| "toy_expand (Suc k) seed = toy_digest seed @ toy_expand k (toy_digest (1 # seed))"

definition toy_pbkdf2Sync :: "buffer \<Rightarrow> buffer \<Rightarrow> nat \<Rightarrow> nat \<Rightarrow> string \<Rightarrow> exn + buffer" where
  "toy_pbkdf2Sync pw salt n len digest =
     (if n = 0 then Inl (Exn ''RangeError'' ''iterations is out of range'')
      else Inr (take len (toy_expand (len div 16 + 1) (toy_stretch n (pw @ salt)))))"

fun shift_stream :: "buffer \<Rightarrow> buffer \<Rightarrow> buffer" where
  "shift_stream ks [] = []"
| "shift_stream [] (x # xs) = x # xs"
| "shift_stream (k # ks) (x # xs) = (x + k) # shift_stream (ks @ [k]) xs"

fun unshift_stream :: "buffer \<Rightarrow> buffer \<Rightarrow> buffer" where
  "unshift_stream ks [] = []"
| "unshift_stream [] (x # xs) = x # xs"
| "unshift_stream (k # ks) (x # xs) = (x - k) # unshift_stream (ks @ [k]) xs"

definition pkcs_pad :: "nat \<Rightarrow> buffer \<Rightarrow> buffer" where
  "pkcs_pad bs m = (let p = bs - length m mod bs in m @ replicate p (of_nat p))"

definition pkcs_unpad :: "nat \<Rightarrow> buffer \<Rightarrow> buffer option" where
  "pkcs_unpad bs m =
     (if m = [] \<or> length m mod bs \<noteq> 0 then None
      else let p = unat (last m)
           in if p = 0 \<or> bs < p \<or> drop (length m - p) m \<noteq> replicate p (last m) then None
              else Some (take (length m - p) m))"

definition cbc_sizes :: "string \<Rightarrow> (nat \<times> nat) option" where
  "cbc_sizes alg =
     (if alg = ''des-cbc'' then Some (8, 8)
      else if alg = ''aes-256-cbc'' then Some (32, 16)
      else None)"

definition toy_cipheriv :: "string \<Rightarrow> buffer \<Rightarrow> buffer \<Rightarrow> buffer \<Rightarrow> exn + buffer" where
  "toy_cipheriv alg key iv p =
     (case cbc_sizes alg of
        None \<Rightarrow> Inl (Exn ''TypeError'' ''Invalid cipher'')
      | Some (klen, bs) \<Rightarrow>
          if length key \<noteq> klen then Inl (Exn ''RangeError'' ''Invalid key length'')
          else if length iv \<noteq> bs then Inl (Exn ''TypeError'' ''Invalid initialization vector'')
          else Inr (shift_stream (key @ iv) (pkcs_pad bs p)))"

definition toy_decipheriv :: "string \<Rightarrow> buffer \<Rightarrow> buffer \<Rightarrow> buffer \<Rightarrow> exn + buffer" where
  "toy_decipheriv alg key iv c =
     (case cbc_sizes alg of
        None \<Rightarrow> Inl (Exn ''TypeError'' ''Invalid cipher'')
      | Some (klen, bs) \<Rightarrow>
          if length key \<noteq> klen then Inl (Exn ''RangeError'' ''Invalid key length'')
          else if length iv \<noteq> bs then Inl (Exn ''TypeError'' ''Invalid initialization vector'')
          else (case pkcs_unpad bs (unshift_stream (key @ iv) c) of
                  None \<Rightarrow> Inl (Exn ''Error'' ''bad decrypt'')
                | Some p \<Rightarrow> Inr p))"

definition toy_cipheriv_gcm ::
  "string \<Rightarrow> buffer \<Rightarrow> buffer \<Rightarrow> buffer \<Rightarrow> exn + buffer \<times> buffer" where
  "toy_cipheriv_gcm alg key iv p =
     (if alg \<noteq> ''aes-256-gcm'' then Inl (Exn ''TypeError'' ''Invalid cipher'')
      else if length key \<noteq> 32 then Inl (Exn ''RangeError'' ''Invalid key length'')
      else if iv = [] then Inl (Exn ''TypeError'' ''Invalid initialization vector'')
      else let c = shift_stream (key @ iv) p in Inr (c, toy_digest (key @ iv @ c)))"

definition toy_decipheriv_gcm ::
  "string \<Rightarrow> buffer \<Rightarrow> buffer \<Rightarrow> buffer \<Rightarrow> buffer \<Rightarrow> exn + buffer" where
  "toy_decipheriv_gcm alg key iv tag c =
     (if alg \<noteq> ''aes-256-gcm'' then Inl (Exn ''TypeError'' ''Invalid cipher'')
      else if length key \<noteq> 32 then Inl (Exn ''RangeError'' ''Invalid key length'')
      else if iv = [] then Inl (Exn ''TypeError'' ''Invalid initialization vector'')
      else if tag \<noteq> toy_digest (key @ iv @ c)
      then Inl (Exn ''Error'' ''Unsupported state or unable to authenticate data'')
      else Inr (unshift_stream (key @ iv) c))"

definition toy :: platform where
  "toy = \<lparr> from_utf8 = toy_from_utf8, to_utf8 = toy_to_utf8,
           from_base64 = toy_from_base64, to_base64 = toy_to_base64,
           createHash = (\<lambda>alg. toy_digest), pbkdf2Sync = toy_pbkdf2Sync,
           cipheriv = toy_cipheriv, decipheriv = toy_decipheriv,
           cipheriv_gcm = toy_cipheriv_gcm, decipheriv_gcm = toy_decipheriv_gcm \<rparr>"


section \<open>Concrete inputs\<close>

text \<open>Instances, salts and texts at which the theorems are exercised on the executable platform.\<close>

definition demo_password :: jsstring where
  "demo_password = js ''pw''"

definition demo_text :: jsstring where
  "demo_text = js ''hello''"

definition demo_Encryptor :: Encryptor where
  "demo_Encryptor = \<lparr> password = [0x70, 0x77], iterations = 2, saltSize = 16, keySize = 32 \<rparr>"

definition demo_JasyptEncryptor :: JasyptEncryptor where
  "demo_JasyptEncryptor = \<lparr> jasypt_password = js ''pw'', jasypt_iterations = 3 \<rparr>"

definition demo_JasyptStrongEncryptor :: JasyptStrongEncryptor where
  "demo_JasyptStrongEncryptor =
     \<lparr> strong_password = [0x70, 0x77], strong_iterations = 2, strong_saltSize = 16 \<rparr>"

definition salt16 :: buffer where
  "salt16 = [1, 2, 3, 4, 5, 6, 7, 8, 9, 10, 11, 12, 13, 14, 15, 16]"

definition salt16' :: buffer where
  "salt16' = [16, 15, 14, 13, 12, 11, 10, 9, 8, 7, 6, 5, 4, 3, 2, 1]"

definition iv12 :: buffer where
  "iv12 = [21, 22, 23, 24, 25, 26, 27, 28, 29, 30, 31, 32]"

definition salt8 :: buffer where
  "salt8 = [1, 2, 3, 4, 5, 6, 7, 8]"

definition salt8' :: buffer where
  "salt8' = [8, 7, 6, 5, 4, 3, 2, 1]"






definition short_blob :: jsstring where
  "short_blob = js ''AQIDBAUGBwgJCgsM''"

definition ragged_blob :: jsstring where
  "ragged_blob = js ''AQIDBAUGBwgJCgsMDQ4PEBESExQVFhcYGRobHB0eHyAh''"



definition demo_blob :: jsstring where
  "demo_blob = js ''AQIDBAUGBwgJCgsMDQ4PEBUWFxgZGhscHR4fIK5Om+FwPt0bWdUTj81JA0H7d7Ux6w==''"

definition demo_jasypt_blob :: jsstring where
  "demo_jasypt_blob = js ''AQIDBAUGBwimQofFRBaS0A==''"

definition demo_strong_blob :: jsstring where
  "demo_strong_blob = js ''AQIDBAUGBwgJCgsMDQ4PEK5Om+FwUt4ksILImiZs+Mo=''"

text \<open>
  A longer text encrypted by the Legacy instance, and a Strong instance with another
  password.
\<close>

definition jdbc_text :: jsstring where
  "jdbc_text = js ''jdbc:mysql://db:3306''"

definition jdbc_blob :: jsstring where
  "jdbc_blob = js ''AQIDBAUGBwioQX28D4AIQLpveyqmGZMlcRBLj9kXk9E=''"

definition other_JasyptStrongEncryptor :: JasyptStrongEncryptor where
  "other_JasyptStrongEncryptor =
     \<lparr> strong_password = [0x62, 0x79], strong_iterations = 1, strong_saltSize = 16 \<rparr>"

text \<open>
  A Legacy instance with one digest round, and a salt and a text for which the Base64 text
  of the blob ends in \<^verbatim>\<open>ENC\<close>.
\<close>

definition one_round_JasyptEncryptor :: JasyptEncryptor where
  "one_round_JasyptEncryptor = \<lparr> jasypt_password = js ''pw'', jasypt_iterations = 1 \<rparr>"

definition crafted_salt :: buffer where
  "crafted_salt = [1, 2, 3, 4, 5, 6, 7, 22]"

definition crafted_text :: jsstring where
  "crafted_text = js ''secret-number10''"

definition crafted_blob :: jsstring where
  "crafted_blob = js ''AQIDBAUGBxYtfDT9ZC1aVdD2pdZX0ENC''"






section \<open>Properties of the built-ins\<close>

lemma startsWith_prefix: "startsWith s p \<longleftrightarrow> prefix p s"
  by (auto simp: startsWith_def prefix_def)
     (metis append_take_drop_id)

lemma endsWith_suffix: "endsWith s p \<longleftrightarrow> suffix p s"
proof
  assume "endsWith s p"
  then have "s = take (length s - length p) s @ p"
    by (metis append_take_drop_id endsWith_def)
  then show "suffix p s"
    by (metis suffixI)
next
  assume "suffix p s"
  then obtain zs where "s = zs @ p"
    by (auto simp: suffix_def)
  then show "endsWith s p"
    by (simp add: endsWith_def)
qed

lemma trim_Nil: "trim [] = []"
  by (simp add: trim_def)

lemmas literal_eval =
  js_def trim_def is_white_space_def startsWith_def endsWith_def ENC_PREFIX_def ENC_SUFFIX_def



lemma subarray_take: "subarray b 0 (int n) = take n b"
  by (simp add: subarray_def relative_index_def Let_def min_def)

lemma subarray_from_drop: "subarray_from b (int n) = drop n b"
  by (simp add: subarray_from_def subarray_def relative_index_def Let_def min_def)

lemma relative_index_int: "relative_index (int n) len = min n len"
  by (simp add: relative_index_def)

lemma subarray_range: "subarray b (int i) (int j) = take (min j (length b) - min i (length b)) (drop (min i (length b)) b)"
  by (simp add: subarray_def relative_index_int Let_def)













lemma Error_toString: "exn_toString (Error m) = ''Error: '' @ m"
  by (simp add: exn_toString_def Error_def)


section \<open>One encryption and its decryption\<close>


lemma decryption_failed_Inl:
  "decryption_failed (Inl e) = Inl (Error (''Decryption failed: '' @ exn_toString e))"
  by (simp add: decryption_failed_def)





























section \<open>The scan of a document\<close>


























section \<open>The key derivation loop and the map fold\<close>

lemma md5_loop_funpow: "md5_loop pr i n r = (createHash pr ''md5'' ^^ (n - i)) r"
proof (induction pr i n r rule: md5_loop.induct)
  case (1 pr i n r)
  show ?case
  proof (cases "i < n")
    case True
    then have "n - i = Suc (n - (i + 1))"
      by simp
    with True "1.IH" show ?thesis
      by (simp add: md5_loop.simps [of pr i n r] funpow_swap1)
  next
    case False
    then show ?thesis
      by (simp add: md5_loop.simps [of pr i n r])
  qed
qed






lemma md5_loop_total:
  assumes "1 \<le> n"
  shows "md5_loop pr 1 n (createHash pr ''md5'' d) = (createHash pr ''md5'' ^^ n) d"
proof -
  from assms obtain m where n: "n = Suc m"
    by (cases n) simp_all
  have "md5_loop pr 1 n (createHash pr ''md5'' d) = (createHash pr ''md5'' ^^ m) (createHash pr ''md5'' d)"
    unfolding md5_loop_funpow n by simp
  also have "\<dots> = (createHash pr ''md5'' ^^ n) d"
    unfolding n by (simp only: funpow_Suc_right o_apply)
  finally show ?thesis .
qed

lemma digest_halves:
  assumes "length d = 16"
  shows "subarray d 0 8 = take 8 d" and "subarray d 8 16 = drop 8 d"
proof -
  show "subarray d 0 8 = take 8 d"
    using subarray_take [of d 8] by simp
  show "subarray d 8 16 = drop 8 d"
    using subarray_range [of d 8 16] assms by simp
qed



section \<open>Running the executable platform\<close>

lemma replicate_numeral_unfold: "replicate (numeral k) x = x # replicate (pred_numeral k) x"
  by (simp add: numeral_eq_Suc)

lemma toy_stretch_numeral: "toy_stretch (numeral k) d = toy_stretch (pred_numeral k) (toy_digest d)"
  by (simp add: numeral_eq_Suc)

lemma toy_expand_numeral:
  "toy_expand (numeral k) seed
     = toy_digest seed @ toy_expand (pred_numeral k) (toy_digest (1 # seed))"
  by (simp add: numeral_eq_Suc)

lemmas toy_eval = toy_def toy_from_utf8_def toy_to_utf8_def toy_from_base64_def base64_value_def
  base64_digit_def base64_alphabet_def toy_digest_def toy_pbkdf2Sync_def
  pkcs_pad_def pkcs_unpad_def cbc_sizes_def toy_cipheriv_def toy_decipheriv_def
  toy_cipheriv_gcm_def toy_decipheriv_gcm_def js_def Let_def
  replicate_numeral_unfold toy_stretch_numeral toy_expand_numeral md5_loop.simps

lemmas model_eval = subarray_def subarray_from_def relative_index_def decryption_failed_def
  deriveKey_def JasyptEncryptor_deriveKeyAndIv_def JasyptStrongEncryptor_deriveKeyAndIv_def
  SALT_SIZE_def KEY_SIZE_def IV_SIZE_def transports_def

lemmas demo_eval = demo_password_def demo_text_def demo_Encryptor_def demo_JasyptEncryptor_def
  demo_JasyptStrongEncryptor_def salt16_def salt16'_def iv12_def salt8_def salt8'_def
  demo_blob_def demo_jasypt_blob_def demo_strong_blob_def jdbc_text_def jdbc_blob_def
  other_JasyptStrongEncryptor_def one_round_JasyptEncryptor_def crafted_salt_def
  crafted_text_def crafted_blob_def







lemma demo_blobs:
  "from_base64 toy short_blob = [1, 2, 3, 4, 5, 6, 7, 8, 9, 10, 11, 12]"
  "from_base64 toy ragged_blob
     = [1, 2, 3, 4, 5, 6, 7, 8, 9, 10, 11, 12, 13, 14, 15, 16,
        17, 18, 19, 20, 21, 22, 23, 24, 25, 26, 27, 28, 29, 30, 31, 32, 33]"
  by (simp_all add: short_blob_def ragged_blob_def toy_eval)










section \<open>The marker predicate\<close>

text \<open>
  Claim C8. \<open>isEncrypted\<close> returns a truth value for every argument, also for
  \<^verbatim>\<open>null\<close> and \<^verbatim>\<open>undefined\<close>. It is true exactly when the argument is a string
  whose trimmed form has \<^verbatim>\<open>ENC(\<close> as a prefix and \<^verbatim>\<open>)\<close> as a suffix. The seven
  literal cases of the specification evaluate as stated.
\<close>

theorem isEncrypted_characterisation:
  "(isEncrypted v \<longleftrightarrow>
      (\<exists>s. v = Str s \<and> prefix (js ''ENC('') (trim s) \<and> suffix (js '')'') (trim s)))
   \<and> isEncrypted (Str (js ''ENC(abc123)'')) = True
   \<and> isEncrypted (Str (js ''ENC()'')) = True
   \<and> isEncrypted (Str (js ''  ENC(value)  '')) = True
   \<and> isEncrypted (Str (js ''plaintext'')) = False
   \<and> isEncrypted (Str (js ''ENC(missing'')) = False
   \<and> isEncrypted (Str (js '''')) = False
   \<and> isEncrypted Null = False
   \<and> isEncrypted Undefined = False"
proof -
  have general: "isEncrypted v \<longleftrightarrow>
      (\<exists>s. v = Str s \<and> prefix (js ''ENC('') (trim s) \<and> suffix (js '')'') (trim s))"
  proof (cases v)
    case (Str s)
    show ?thesis
    proof (cases "s = []")
      case True
      with Str show ?thesis
        by (simp add: trim_Nil js_def)
    next
      case False
      with Str show ?thesis
        by (simp add: Let_def startsWith_prefix endsWith_suffix ENC_PREFIX_def ENC_SUFFIX_def)
    qed
  qed simp_all
  have l1: "isEncrypted (Str (js ''ENC(abc123)'')) = True"
    by (simp add: literal_eval)
  have l2: "isEncrypted (Str (js ''ENC()'')) = True"
    by (simp add: literal_eval)
  have l3: "isEncrypted (Str (js ''  ENC(value)  '')) = True"
    by (simp add: literal_eval)
  have l4: "isEncrypted (Str (js ''plaintext'')) = False"
    by (simp add: literal_eval)
  have l5: "isEncrypted (Str (js ''ENC(missing'')) = False"
    by (simp add: literal_eval)
  have l6: "isEncrypted (Str (js '''')) = False"
    by (simp add: js_def)
  from general l1 l2 l3 l4 l5 l6 show ?thesis
    by simp
qed

section \<open>Round trip and fresh blobs\<close>




section \<open>The key and IV derivation of the Legacy Variant\<close>

text \<open>
  Claim C2. For an iteration count of at least one, \<open>deriveKeyAndIv\<close> of
  \<open>JasyptEncryptor\<close> is the derivation the specification describes: the digest is
  applied to the UTF-8 bytes of the password followed by the salt, then to its own output,
  \<open>iterations\<close> times in all; where that output has sixteen bytes, as an MD5 digest
  has, the key is its first eight bytes and the IV its last eight.
\<close>

theorem legacy_derivation_refines_spec:
  assumes "1 \<le> jasypt_iterations e"
    and "length ((createHash pr ''md5'' ^^ jasypt_iterations e)
                   (from_utf8 pr (jasypt_password e) @ salt)) = 16"
  shows "JasyptEncryptor_deriveKeyAndIv pr e salt
           = legacy_kdf_spec (createHash pr ''md5'') (from_utf8 pr (jasypt_password e)) salt
               (jasypt_iterations e)
         \<and> length (fst (JasyptEncryptor_deriveKeyAndIv pr e salt)) = 8
         \<and> length (snd (JasyptEncryptor_deriveKeyAndIv pr e salt)) = 8"
proof -
  let ?d = "(createHash pr ''md5'' ^^ jasypt_iterations e)
              (from_utf8 pr (jasypt_password e) @ salt)"
  have "JasyptEncryptor_deriveKeyAndIv pr e salt = (subarray ?d 0 8, subarray ?d 8 16)"
    unfolding JasyptEncryptor_deriveKeyAndIv_def Let_def md5_loop_total [OF assms(1)] ..
  also have "\<dots> = (take 8 ?d, drop 8 ?d)"
    using digest_halves [OF assms(2)] by (simp only:)
  finally have eq: "JasyptEncryptor_deriveKeyAndIv pr e salt = (take 8 ?d, drop 8 ?d)" .
  have spec: "legacy_kdf_spec (createHash pr ''md5'') (from_utf8 pr (jasypt_password e)) salt
          (jasypt_iterations e) = (take 8 ?d, drop 8 ?d)"
    by (simp only: legacy_kdf_spec_def Let_def)
  show ?thesis
    unfolding eq spec using assms(2) by simp
qed


theorem legacy_derivation_refines_spec_witness:
  "1 \<le> jasypt_iterations demo_JasyptEncryptor
   \<and> length ((createHash toy ''md5'' ^^ jasypt_iterations demo_JasyptEncryptor)
                (from_utf8 toy (jasypt_password demo_JasyptEncryptor) @ salt8)) = 16
   \<and> JasyptEncryptor_deriveKeyAndIv toy demo_JasyptEncryptor salt8
       = legacy_kdf_spec (createHash toy ''md5'')
           (from_utf8 toy (jasypt_password demo_JasyptEncryptor)) salt8 3
   \<and> JasyptEncryptor_deriveKeyAndIv toy demo_JasyptEncryptor salt8
       = ([62, 221, 27, 89, 213, 19, 143, 205],
          [73, 3, 65, 251, 119, 181, 49, 235])"
proof -
  have n: "jasypt_iterations demo_JasyptEncryptor = 3"
    by (simp add: demo_eval)
  have h1: "1 \<le> jasypt_iterations demo_JasyptEncryptor"
    by (simp add: n)
  have h2: "length ((createHash toy ''md5'' ^^ jasypt_iterations demo_JasyptEncryptor)
                (from_utf8 toy (jasypt_password demo_JasyptEncryptor) @ salt8)) = 16"
    by (simp add: n numeral_3_eq_3 toy_def toy_digest_def Let_def)
  have v: "JasyptEncryptor_deriveKeyAndIv toy demo_JasyptEncryptor salt8
       = ([62, 221, 27, 89, 213, 19, 143, 205],
          [73, 3, 65, 251, 119, 181, 49, 235])"
    by (simp add: toy_eval model_eval demo_eval)
  from legacy_derivation_refines_spec [OF h1 h2] h1 h2 v show ?thesis
    by (simp only: n simp_thms)
qed

section \<open>The blob of the Modern Variant\<close>



section \<open>The key and IV derivation of the Strong Variant\<close>

text \<open>
  Claim C4. \<open>deriveKeyAndIv\<close> of \<open>JasyptStrongEncryptor\<close> is one call of PBKDF2 with
  the digest \<^verbatim>\<open>sha256\<close>, the password, the salt and the iteration count of the instance,
  asking for 48 bytes; it fails when that call fails, and otherwise the key is the first 32
  bytes of what the call returned and the IV the rest, 16 bytes when the call returned the
  48 it was asked for.
\<close>

theorem strong_derivation:
  "JasyptStrongEncryptor_deriveKeyAndIv pr e salt
     = (case pbkdf2Sync pr (strong_password e) salt (strong_iterations e) 48 ''sha256'' of
          Inl error \<Rightarrow> Inl error
        | Inr derived \<Rightarrow> Inr (take 32 derived, drop 32 derived))
   \<and> (pbkdf2Sync pr (strong_password e) salt (strong_iterations e) 48 ''sha256'' = Inr derived
        \<and> length derived = 48
      \<longrightarrow> (\<exists>key iv. JasyptStrongEncryptor_deriveKeyAndIv pr e salt = Inr (key, iv)
             \<and> key @ iv = derived \<and> length key = 32 \<and> length iv = 16))"
proof -
  have slices: "subarray d 0 (int KEY_SIZE) = take 32 d"
    "subarray_from d (int KEY_SIZE) = drop 32 d" for d
    using subarray_take [of d 32] subarray_from_drop [of d 32]
    by (simp_all add: KEY_SIZE_def)
  have eq: "JasyptStrongEncryptor_deriveKeyAndIv pr e salt
     = (case pbkdf2Sync pr (strong_password e) salt (strong_iterations e) 48 ''sha256'' of
          Inl error \<Rightarrow> Inl error
        | Inr derived \<Rightarrow> Inr (take 32 derived, drop 32 derived))"
  proof -
    have "KEY_SIZE + IV_SIZE = 48"
      by (simp add: KEY_SIZE_def IV_SIZE_def)
    then show ?thesis
      by (simp add: JasyptStrongEncryptor_deriveKeyAndIv_def slices split: sum.splits)
  qed
  then show ?thesis
    by auto
qed

theorem strong_derivation_witness:
  "\<exists>derived key iv.
      pbkdf2Sync toy (strong_password demo_JasyptStrongEncryptor) salt16
        (strong_iterations demo_JasyptStrongEncryptor) 48 ''sha256'' = Inr derived
      \<and> length derived = 48
      \<and> JasyptStrongEncryptor_deriveKeyAndIv toy demo_JasyptStrongEncryptor salt16 = Inr (key, iv)
      \<and> key @ iv = derived \<and> length key = 32 \<and> length iv = 16"
proof -
  obtain derived where d: "pbkdf2Sync toy (strong_password demo_JasyptStrongEncryptor) salt16
        (strong_iterations demo_JasyptStrongEncryptor) 48 ''sha256'' = Inr derived"
    and len: "length derived = 48"
    by (simp add: toy_eval demo_eval)
  with strong_derivation [of toy demo_JasyptStrongEncryptor salt16 derived] show ?thesis
    by blast
qed

section \<open>Blobs of the wrong length\<close>

text \<open>
  Claim C5. For an encoded input that is not empty, \<open>decrypt\<close> of \<open>JasyptEncryptor\<close>
  raises an error when the decoded blob has fewer than 16 bytes or when the bytes after
  the first eight are not a multiple of 8; \<open>decrypt\<close> of \<open>JasyptStrongEncryptor\<close>
  raises an error when the decoded blob has fewer than \<open>saltSize + 16\<close> bytes or when the
  bytes after the salt are not a multiple of 16. The error is the one the check throws,
  wrapped by the handler around the body of \<open>decrypt\<close>.
\<close>

theorem malformed_length_rejected:
  "(encoded \<noteq> [] \<and>
      (length (from_base64 pr encoded) < 16
       \<or> length (drop 8 (from_base64 pr encoded)) mod 8 \<noteq> 0)
    \<longrightarrow> JasyptEncryptor_decrypt pr j encoded
          = Inl (Error ''Decryption failed: Error: Invalid Jasypt data''))
   \<and> (encoded \<noteq> [] \<and>
      (length (from_base64 pr encoded) < strong_saltSize s + 16
       \<or> length (drop (strong_saltSize s) (from_base64 pr encoded)) mod 16 \<noteq> 0)
    \<longrightarrow> JasyptStrongEncryptor_decrypt pr s encoded
          = Inl (Error ''Decryption failed: Error: Invalid data''))"
proof (intro conjI impI; elim conjE)
  assume "encoded \<noteq> []"
    and "length (from_base64 pr encoded) < 16
       \<or> length (drop 8 (from_base64 pr encoded)) mod 8 \<noteq> 0"
  then show "JasyptEncryptor_decrypt pr j encoded
          = Inl (Error ''Decryption failed: Error: Invalid Jasypt data'')"
    using subarray_from_drop [of "from_base64 pr encoded" 8]
    by (auto simp: JasyptEncryptor_decrypt_def Let_def SALT_SIZE_def decryption_failed_Inl
        Error_toString)
next
  assume "encoded \<noteq> []"
    and "length (from_base64 pr encoded) < strong_saltSize s + 16
       \<or> length (drop (strong_saltSize s) (from_base64 pr encoded)) mod 16 \<noteq> 0"
  then show "JasyptStrongEncryptor_decrypt pr s encoded
          = Inl (Error ''Decryption failed: Error: Invalid data'')"
    using subarray_from_drop [of "from_base64 pr encoded" "strong_saltSize s"]
    by (auto simp: JasyptStrongEncryptor_decrypt_def Let_def decryption_failed_Inl
        Error_toString)
qed


theorem malformed_length_rejected_witness:
  "short_blob \<noteq> [] \<and> length (from_base64 toy short_blob) < 16
   \<and> JasyptEncryptor_decrypt toy demo_JasyptEncryptor short_blob
       = Inl (Error ''Decryption failed: Error: Invalid Jasypt data'')
   \<and> ragged_blob \<noteq> []
   \<and> length (drop 8 (from_base64 toy ragged_blob)) mod 8 \<noteq> 0
   \<and> JasyptEncryptor_decrypt toy demo_JasyptEncryptor ragged_blob
       = Inl (Error ''Decryption failed: Error: Invalid Jasypt data'')
   \<and> length (from_base64 toy short_blob) < strong_saltSize demo_JasyptStrongEncryptor + 16
   \<and> JasyptStrongEncryptor_decrypt toy demo_JasyptStrongEncryptor short_blob
       = Inl (Error ''Decryption failed: Error: Invalid data'')
   \<and> length (drop (strong_saltSize demo_JasyptStrongEncryptor) (from_base64 toy ragged_blob))
         mod 16 \<noteq> 0
   \<and> JasyptStrongEncryptor_decrypt toy demo_JasyptStrongEncryptor ragged_blob
       = Inl (Error ''Decryption failed: Error: Invalid data'')"
proof -
  have h: "short_blob \<noteq> []" "ragged_blob \<noteq> []"
    "length (from_base64 toy short_blob) < 16"
    "length (drop 8 (from_base64 toy ragged_blob)) mod 8 \<noteq> 0"
    "length (from_base64 toy short_blob) < strong_saltSize demo_JasyptStrongEncryptor + 16"
    "length (drop (strong_saltSize demo_JasyptStrongEncryptor) (from_base64 toy ragged_blob))
         mod 16 \<noteq> 0"
    by (simp_all add: demo_blobs demo_eval) (simp_all add: short_blob_def ragged_blob_def js_def)
  from h
    malformed_length_rejected [of short_blob toy demo_JasyptEncryptor demo_JasyptStrongEncryptor]
    malformed_length_rejected [of ragged_blob toy demo_JasyptEncryptor demo_JasyptStrongEncryptor]
  show ?thesis
    by (simp only: simp_thms)
qed

section \<open>Framed values\<close>



section \<open>The batch operations\<close>




section \<open>A blob of one variant given to another\<close>






section \<open>The empty frame\<close>






end
